theory Spec2Isabelle
  imports Complex_Main "HOL-Library.Sublist"
begin

section \<open>JavaScript values\<close>

text \<open>
  The dashboard's two scripts (\<^verbatim>\<open>main.js\<close> for the browser, the data service module
  for the server) receive JSON from two web services and pick fields out of it. The
  values they handle are the values \<^verbatim>\<open>JSON.parse\<close> produces, together with
  \<^verbatim>\<open>undefined\<close> (the result of reading a property that is not there) and the
  Numbers \<^verbatim>\<open>parseFloat\<close> can return.

  A Number is \<^verbatim>\<open>NaN\<close>, an infinity (the flag is \<open>True\<close> for the negative one) or
  a finite value, kept as the exact rational it denotes. Every double is such a rational,
  so a statement about all \<open>Fin q\<close> covers all finite doubles. The two zeros are
  identified: the code under study treats them alike (both are falsy, both print as
  \<^verbatim>\<open>0.0000\<close>).

  Strings are lists of 8-bit characters, read as code units below 256. An object is the
  list of its own properties; the first entry for a name is the property's value.
\<close>

datatype jsnum = NaN | Infinity bool | Fin rat

datatype jsval =
    JUndefined
  | JNull
  | JBool bool
  | JNum jsnum
  | JStr string
  | JArr "jsval list"
  | JObj "(string \<times> jsval) list"

datatype js_error = TypeError | SyntaxError | NetworkError | Error string

type_synonym 'a outcome = "js_error + 'a"

text \<open>\<^verbatim>\<open>ToBoolean\<close>: what \<^verbatim>\<open>||\<close> and \<^verbatim>\<open>if\<close> test.\<close>

fun truthy :: "jsval \<Rightarrow> bool" where
  "truthy JUndefined = False"
| "truthy JNull = False"
| "truthy (JBool b) = b"
| "truthy (JNum NaN) = False"
| "truthy (JNum (Infinity s)) = True"
| "truthy (JNum (Fin q)) = (q \<noteq> 0)"
| "truthy (JStr s) = (s \<noteq> [])"
| "truthy (JArr xs) = True"
| "truthy (JObj kvs) = True"

definition nullish :: "jsval \<Rightarrow> bool" where
  "nullish v = (v = JUndefined \<or> v = JNull)"

text \<open>
  Reading property \<open>k\<close> of a value that is neither \<^verbatim>\<open>null\<close> nor \<^verbatim>\<open>undefined\<close>.
  The names the scripts read (\<^verbatim>\<open>data\<close>, the mint address, \<^verbatim>\<open>price\<close>,
  \<^verbatim>\<open>result\<close>, \<^verbatim>\<open>value\<close>, \<^verbatim>\<open>uiAmountString\<close>) are neither array indices nor
  \<^verbatim>\<open>length\<close> nor names of the built-in prototypes, so on an array, a string, a number
  or a boolean the read gives \<^verbatim>\<open>undefined\<close>, and on an object it gives the own
  property or \<^verbatim>\<open>undefined\<close>.
\<close>

fun get_prop :: "jsval \<Rightarrow> string \<Rightarrow> jsval" where
  "get_prop (JObj kvs) k = (case map_of kvs k of None \<Rightarrow> JUndefined | Some v \<Rightarrow> v)"
| "get_prop v k = JUndefined"

text \<open>\<^verbatim>\<open>v?.k\<close> and \<^verbatim>\<open>v?.[k]\<close>: optional chaining never throws.\<close>

definition opt_get :: "jsval \<Rightarrow> string \<Rightarrow> jsval" where
  "opt_get v k = (if nullish v then JUndefined else get_prop v k)"

text \<open>\<^verbatim>\<open>v.k\<close>: throws a \<^verbatim>\<open>TypeError\<close> on \<^verbatim>\<open>null\<close> and \<^verbatim>\<open>undefined\<close>.\<close>

definition get_member :: "jsval \<Rightarrow> string \<Rightarrow> jsval outcome" where
  "get_member v k = (if nullish v then Inl TypeError else Inr (get_prop v k))"

text \<open>\<^verbatim>\<open>a || b\<close>\<close>

definition js_or :: "jsval \<Rightarrow> jsval \<Rightarrow> jsval" where
  "js_or a b = (if truthy a then a else b)"

section \<open>The network and the console\<close>

text \<open>
  \<^verbatim>\<open>fetch\<close> either rejects or resolves to a response. Of a response the scripts read
  \<^verbatim>\<open>status\<close>, \<^verbatim>\<open>ok\<close> (true exactly for the statuses 200 to 299) and the promise
  \<^verbatim>\<open>res.json()\<close>, which rejects (a \<^verbatim>\<open>SyntaxError\<close> on a body that is not JSON) or
  resolves to the parsed value. The text of the body and the JSON parser belong to the
  runtime and are not modelled. The request's body is kept as the payload that
  \<^verbatim>\<open>JSON.stringify\<close> is applied to.
\<close>

record response =
  status :: nat
  json :: "jsval outcome"

definition ok :: "response \<Rightarrow> bool" where
  "ok res = (200 \<le> status res \<and> status res \<le> 299)"

datatype http_method = GET | POST

record request =
  url :: string
  http_method :: http_method
  headers :: "(string \<times> string) list"
  body :: "jsval option"

type_synonym network = "request \<Rightarrow> response outcome"

text \<open>\<^verbatim>\<open>console.error(msg, err)\<close> appends one entry to the log.\<close>

type_synonym console = "(string \<times> js_error) list"

definition console_error :: "string \<Rightarrow> js_error \<Rightarrow> console \<Rightarrow> console" where
  "console_error msg err c = c @ [(msg, err)]"

text \<open>
  An \<^verbatim>\<open>async\<close> function's promise is rejected with an error or fulfilled with a
  value. \<^verbatim>\<open>try { body } catch (err) { console.error(msg, err); return null; }\<close>
  is the shape of all three fetchers.
\<close>

definition try_log_null :: "string \<Rightarrow> jsval outcome \<Rightarrow> console \<Rightarrow> jsval outcome \<times> console" where
  "try_log_null msg attempt c =
     (case attempt of
        Inl err \<Rightarrow> (Inr JNull, console_error msg err c)
      | Inr v \<Rightarrow> (Inr v, c))"

section \<open>The price fetcher\<close>

definition WEED_MINT_ADDRESS :: string where
  "WEED_MINT_ADDRESS = ''E2gLkTXSbbTMmJM19xkquawun2ShJSi7G59A8c2PtbFa''"

text \<open>Line 17 of \<^verbatim>\<open>main.js\<close>, line 32 of the data service.\<close>

definition priceInfo_of :: "jsval \<Rightarrow> jsval" where
  "priceInfo_of data = opt_get (opt_get data ''data'') WEED_MINT_ADDRESS"

text \<open>Line 18 of \<^verbatim>\<open>main.js\<close>, line 33 of the data service.\<close>

definition price_of :: "jsval \<Rightarrow> jsval" where
  "price_of data = js_or (opt_get (priceInfo_of data) ''price'') JNull"

definition price_request_v4 :: request where
  "price_request_v4 =
     \<lparr> url = ''https://price.jup.ag/v4/price?ids='' @ WEED_MINT_ADDRESS,
       http_method = GET, headers = [], body = None \<rparr>"

definition price_request_v3 :: request where
  "price_request_v3 =
     \<lparr> url = ''https://lite-api.jup.ag/price/v3?ids='' @ WEED_MINT_ADDRESS,
       http_method = GET, headers = [], body = None \<rparr>"

text \<open>The \<^verbatim>\<open>try\<close> block of both price fetchers, for the request each one sends.\<close>

definition price_attempt :: "request \<Rightarrow> network \<Rightarrow> jsval outcome" where
  "price_attempt req net =
     (case net req of
        Inl err \<Rightarrow> Inl err
      | Inr res \<Rightarrow>
          (case json res of
             Inl err \<Rightarrow> Inl err
           | Inr data \<Rightarrow> Inr (price_of data)))"

text \<open>\<^verbatim>\<open>fetchWeedPrice\<close> of \<^verbatim>\<open>main.js\<close>.\<close>

definition fetchWeedPrice :: "network \<Rightarrow> console \<Rightarrow> jsval outcome \<times> console" where
  "fetchWeedPrice net c =
     try_log_null ''Failed to fetch WEED price:'' (price_attempt price_request_v4 net) c"

text \<open>\<^verbatim>\<open>getWeedPrice\<close> of the data service.\<close>

definition getWeedPrice :: "network \<Rightarrow> console \<Rightarrow> jsval outcome \<times> console" where
  "getWeedPrice net c =
     try_log_null ''Failed to fetch WEED price:'' (price_attempt price_request_v3 net) c"

section \<open>Numbers and strings\<close>

text \<open>
  Three things the runtime does are taken as parameters, and every theorem holds for
  each choice of them:
  \<^item> \<open>roundNumber\<close>: the Number for a mathematical value (the nearest double, an
    infinity on overflow), which ends \<^verbatim>\<open>parseFloat\<close>;
  \<^item> \<open>finiteToString\<close>: \<^verbatim>\<open>Number::toString\<close> on a finite Number, the shortest
    decimal that reads back as the same double;
  \<^item> \<open>toLocaleString\<close>: the method call
    \<^verbatim>\<open>v.toLocaleString(undefined, { maximumFractionDigits: 3 })\<close>, which depends on
    the host's locale.
\<close>

record runtime =
  roundNumber :: "rat \<Rightarrow> jsnum"
  finiteToString :: "rat \<Rightarrow> string"
  toLocaleString :: "jsval \<Rightarrow> string outcome"

definition digit_char :: "nat \<Rightarrow> char" where
  "digit_char d = ''0123456789'' ! d"

text \<open>The decimal digits of a natural number, without leading zeros (\<open>0\<close> is \<^verbatim>\<open>0\<close>).\<close>

function decimal :: "nat \<Rightarrow> string" where
  "decimal n = (if n < 10 then [digit_char n] else decimal (n div 10) @ [digit_char (n mod 10)])"
  by pat_completeness auto
termination
  by (relation "measure id") auto

declare decimal.simps [simp del]

definition number_to_string :: "runtime \<Rightarrow> jsnum \<Rightarrow> string" where
  "number_to_string rt x =
     (case x of
        NaN \<Rightarrow> ''NaN''
      | Infinity neg \<Rightarrow> (if neg then ''-Infinity'' else ''Infinity'')
      | Fin q \<Rightarrow> finiteToString rt q)"

text \<open>
  \<^verbatim>\<open>Number.prototype.toFixed(f)\<close> for \<open>0 \<le> f \<le> 100\<close> (the script passes 4). A value
  that is not finite prints as \<^verbatim>\<open>Number::toString\<close> prints it; so does a magnitude from
  \<open>10\<^sup>2\<^sup>1\<close> up, after the sign. Below that, \<open>n\<close> is the integer for which
  \<open>n / 10\<^sup>f\<close> is closest to the magnitude, the larger one of two; its digits are padded
  with zeros to \<open>f + 1\<close> places and the point is put before the last \<open>f\<close>.
\<close>

definition toFixed :: "runtime \<Rightarrow> jsnum \<Rightarrow> nat \<Rightarrow> string" where
  "toFixed rt x f =
     (case x of
        Fin q \<Rightarrow>
          (let s = (if q < 0 then ''-'' else []);
               a = \<bar>q\<bar>
           in if 10 ^ 21 \<le> a then s @ number_to_string rt (Fin a)
              else
                (let n = nat \<lfloor>a * 10 ^ f + 1 / 2\<rfloor>;
                     m = decimal n
                 in if f = 0 then s @ m
                    else
                      (let m' = (if length m \<le> f
                                 then replicate (f + 1 - length m) (CHR ''0'') @ m else m);
                           k = length m'
                       in s @ take (k - f) m' @ ''.'' @ drop (k - f) m')))
      | _ \<Rightarrow> number_to_string rt x)"

text \<open>
  The method call \<^verbatim>\<open>v.toFixed(f)\<close> on any value: only a Number has the method. On
  every other value \<^verbatim>\<open>v.toFixed\<close> is \<^verbatim>\<open>undefined\<close> or (an own property of parsed
  JSON) not a function, and on \<^verbatim>\<open>null\<close> and \<^verbatim>\<open>undefined\<close> the property read fails:
  a \<^verbatim>\<open>TypeError\<close> in each case.
\<close>

fun toFixed_call :: "runtime \<Rightarrow> jsval \<Rightarrow> nat \<Rightarrow> string outcome" where
  "toFixed_call rt (JNum x) f = Inr (toFixed rt x f)"
| "toFixed_call rt v f = Inl TypeError"

text \<open>
  \<^verbatim>\<open>ToString\<close>. An object made by \<^verbatim>\<open>JSON.parse\<close> prints as \<^verbatim>\<open>[object Object]\<close>
  through \<^verbatim>\<open>Object.prototype.toString\<close>, unless an own property \<^verbatim>\<open>toString\<close>
  (never a function in parsed JSON) hides that method: then \<^verbatim>\<open>valueOf\<close> gives no
  primitive either and the conversion throws. An array is joined with commas,
  \<^verbatim>\<open>null\<close> and \<^verbatim>\<open>undefined\<close> elements printing as the empty string.
\<close>

fun ToString :: "runtime \<Rightarrow> jsval \<Rightarrow> string outcome"
  and join_elems :: "runtime \<Rightarrow> jsval list \<Rightarrow> string outcome" where
  "ToString rt JUndefined = Inr ''undefined''"
| "ToString rt JNull = Inr ''null''"
| "ToString rt (JBool b) = Inr (if b then ''true'' else ''false'')"
| "ToString rt (JNum x) = Inr (number_to_string rt x)"
| "ToString rt (JStr s) = Inr s"
| "ToString rt (JArr xs) = join_elems rt xs"
| "ToString rt (JObj kvs) =
     (if ''toString'' \<in> fst ` set kvs then Inl TypeError else Inr ''[object Object]'')"
| "join_elems rt [] = Inr []"
| "join_elems rt (x # xs) =
     (case (if x = JUndefined \<or> x = JNull then Inr [] else ToString rt x) of
        Inl err \<Rightarrow> Inl err
      | Inr s \<Rightarrow>
          (if xs = [] then Inr s
           else (case join_elems rt xs of
                   Inl err \<Rightarrow> Inl err
                 | Inr t \<Rightarrow> Inr (s @ '','' @ t))))"

text \<open>White space and line terminators among the code units below 256.\<close>

definition is_space :: "char \<Rightarrow> bool" where
  "is_space c = (of_char c \<in> {9, 10, 11, 12, 13, 32, 160 :: nat})"

definition is_digit :: "char \<Rightarrow> bool" where
  "is_digit c = (c \<in> set ''0123456789'')"

definition digits_value :: "string \<Rightarrow> nat" where
  "digits_value ds = foldl (\<lambda>a c. 10 * a + (of_char c - 48)) 0 ds"

definition pow10 :: "int \<Rightarrow> rat" where
  "pow10 e = (if 0 \<le> e then 10 ^ nat e else 1 / 10 ^ nat (- e))"

text \<open>An optional sign: whether it is a minus, and the rest.\<close>

fun strip_sign :: "string \<Rightarrow> bool \<times> string" where
  "strip_sign (c # cs) =
     (if c = CHR ''-'' then (True, cs) else if c = CHR ''+'' then (False, cs) else (False, c # cs))"
| "strip_sign [] = (False, [])"

text \<open>
  The exponent part at the head of a string, if there is a complete one:
  \<^verbatim>\<open>e\<close> or \<^verbatim>\<open>E\<close>, an optional sign, at least one digit. Without one the exponent
  is 0 and the characters are not part of the literal.
\<close>

fun exponent_part :: "string \<Rightarrow> int" where
  "exponent_part (c # cs) =
     (if c = CHR ''e'' \<or> c = CHR ''E'' then
        (let (neg, r) = strip_sign cs;
             ds = takeWhile is_digit r
         in if ds = [] then 0
            else if neg then - int (digits_value ds) else int (digits_value ds))
      else 0)"
| "exponent_part [] = 0"

text \<open>
  \<^verbatim>\<open>parseFloat\<close> on a string: leading white space is dropped, the longest prefix that is a
  \<^verbatim>\<open>StrDecimalLiteral\<close> is read (a sign, then \<^verbatim>\<open>Infinity\<close>, or digits with an optional
  fraction and exponent, or a fraction starting with the point), and its value is
  rounded to a Number. Without such a prefix the result is \<^verbatim>\<open>NaN\<close>.
\<close>

definition parseFloat_string :: "runtime \<Rightarrow> string \<Rightarrow> jsnum" where
  "parseFloat_string rt inputString =
     (let (neg, u) = strip_sign (dropWhile is_space inputString)
      in if prefix ''Infinity'' u then Infinity neg
         else
           (let ip = takeWhile is_digit u;
                r1 = dropWhile is_digit u;
                (fp, r2) = (case r1 of
                              c # r \<Rightarrow> (if c = CHR ''.''
                                        then (takeWhile is_digit r, dropWhile is_digit r)
                                        else ([], r1))
                            | [] \<Rightarrow> ([], r1))
            in if ip = [] \<and> fp = [] then NaN
               else
                 (let mv = of_nat (digits_value (ip @ fp))
                             * pow10 (exponent_part r2 - int (length fp))
                  in roundNumber rt (if neg then - mv else mv))))"

text \<open>\<^verbatim>\<open>parseFloat(v)\<close>: the argument is converted to a string first, which can throw.\<close>

definition parseFloat :: "runtime \<Rightarrow> jsval \<Rightarrow> jsnum outcome" where
  "parseFloat rt v =
     (case ToString rt v of
        Inl err \<Rightarrow> Inl err
      | Inr s \<Rightarrow> Inr (parseFloat_string rt s))"

section \<open>The supply fetcher\<close>

text \<open>
  \<^verbatim>\<open>process.env.SOLANA_RPC_ENDPOINT || 'https://api.mainnet-beta.solana.com'\<close>: a
  variable that is unset or empty gives the default.
\<close>

definition default_endpoint :: string where
  "default_endpoint = ''https://api.mainnet-beta.solana.com''"

definition RPC_ENDPOINT :: "string option \<Rightarrow> string" where
  "RPC_ENDPOINT env =
     (case env of
        None \<Rightarrow> default_endpoint
      | Some s \<Rightarrow> (if s \<noteq> [] then s else default_endpoint))"

definition payload :: jsval where
  "payload =
     JObj [(''jsonrpc'', JStr ''2.0''),
           (''id'', JNum (Fin 1)),
           (''method'', JStr ''getTokenSupply''),
           (''params'', JArr [JStr WEED_MINT_ADDRESS])]"

definition rpc_request :: "string \<Rightarrow> request" where
  "rpc_request endpoint =
     \<lparr> url = endpoint, http_method = POST,
       headers = [(''Content-Type'', ''application/json'')],
       body = Some payload \<rparr>"

text \<open>
  Line 42 of \<^verbatim>\<open>main.js\<close>, line 70 of the data service:
  \<^verbatim>\<open>parseFloat(data.result.value.uiAmountString)\<close>.
\<close>

definition supply_of :: "runtime \<Rightarrow> jsval \<Rightarrow> jsnum outcome" where
  "supply_of rt data =
     (case get_member data ''result'' of
        Inl err \<Rightarrow> Inl err
      | Inr result \<Rightarrow>
          (case get_member result ''value'' of
             Inl err \<Rightarrow> Inl err
           | Inr val \<Rightarrow>
               (case get_member val ''uiAmountString'' of
                  Inl err \<Rightarrow> Inl err
                | Inr u \<Rightarrow> parseFloat rt u)))"

text \<open>
  The \<^verbatim>\<open>try\<close> block of both supply fetchers up to the constant \<^verbatim>\<open>supply\<close>:
  the request, the status check with its \<^verbatim>\<open>throw\<close>, the body, and the line above.
\<close>

definition supply_attempt :: "string \<Rightarrow> runtime \<Rightarrow> network \<Rightarrow> jsnum outcome" where
  "supply_attempt endpoint rt net =
     (case net (rpc_request endpoint) of
        Inl err \<Rightarrow> Inl err
      | Inr res \<Rightarrow>
          (if \<not> ok res then Inl (Error (''HTTP '' @ decimal (status res)))
           else
             (case json res of
                Inl err \<Rightarrow> Inl err
              | Inr data \<Rightarrow> supply_of rt data)))"

text \<open>The object \<^verbatim>\<open>{ total: 240000000, supply }\<close>.\<close>

definition supply_info :: "jsnum \<Rightarrow> jsval" where
  "supply_info supply = JObj [(''total'', JNum (Fin 240000000)), (''supply'', JNum supply)]"

text \<open>\<^verbatim>\<open>getTokenSupply\<close> of the data service; \<open>env\<close> is the environment variable.\<close>

definition getTokenSupply ::
    "string option \<Rightarrow> runtime \<Rightarrow> network \<Rightarrow> console \<Rightarrow> jsval outcome \<times> console" where
  "getTokenSupply env rt net c =
     try_log_null ''Failed to fetch token supply:''
       (case supply_attempt (RPC_ENDPOINT env) rt net of
          Inl err \<Rightarrow> Inl err
        | Inr supply \<Rightarrow> Inr (supply_info supply)) c"

text \<open>\<^verbatim>\<open>fetchWeedSupply\<close> of \<^verbatim>\<open>main.js\<close>: the endpoint is fixed, the Number is returned bare.\<close>

definition fetchWeedSupply :: "runtime \<Rightarrow> network \<Rightarrow> console \<Rightarrow> jsval outcome \<times> console" where
  "fetchWeedSupply rt net c =
     try_log_null ''Failed to fetch token supply:''
       (case supply_attempt default_endpoint rt net of
          Inl err \<Rightarrow> Inl err
        | Inr supply \<Rightarrow> Inr (JNum supply)) c"

section \<open>The dashboard\<close>

text \<open>
  The page: the console and, for each element id, the text content of the element
  \<^verbatim>\<open>document.getElementById\<close> finds (\<open>None\<close> when it finds none and returns
  \<^verbatim>\<open>null\<close>).
\<close>

record page =
  console :: console
  document :: "string \<rightharpoonup> string"

text \<open>Lines 53 to 58 of \<^verbatim>\<open>main.js\<close>.\<close>

definition show_price :: "runtime \<Rightarrow> jsval \<Rightarrow> page \<Rightarrow> unit outcome \<times> page" where
  "show_price rt price pg =
     (if price \<noteq> JNull then
        (case document pg ''weed-price'' of
           None \<Rightarrow> (Inr (), pg)
         | Some old \<Rightarrow>
             (case toFixed_call rt price 4 of
                Inl err \<Rightarrow> (Inl err, pg)
              | Inr s \<Rightarrow>
                  (Inr (), pg\<lparr>document := (document pg)(''weed-price'' \<mapsto> ''$'' @ s)\<rparr>)))
      else (Inr (), pg))"

text \<open>Lines 59 to 64 of \<^verbatim>\<open>main.js\<close>.\<close>

definition show_supply :: "runtime \<Rightarrow> jsval \<Rightarrow> page \<Rightarrow> unit outcome \<times> page" where
  "show_supply rt supply pg =
     (if supply \<noteq> JNull then
        (case document pg ''current-supply'' of
           None \<Rightarrow> (Inr (), pg)
         | Some old \<Rightarrow>
             (case toLocaleString rt supply of
                Inl err \<Rightarrow> (Inl err, pg)
              | Inr s \<Rightarrow>
                  (Inr (), pg\<lparr>document := (document pg)(''current-supply'' \<mapsto> s)\<rparr>)))
      else (Inr (), pg))"

text \<open>
  \<^verbatim>\<open>updateDashboard\<close>: the two fetches one after the other, then the two writes. An
  error thrown on the way rejects the promise and ends the function there.
\<close>

definition updateDashboard :: "runtime \<Rightarrow> network \<Rightarrow> page \<Rightarrow> unit outcome \<times> page" where
  "updateDashboard rt net pg =
     (case fetchWeedPrice net (console pg) of
        (Inl err, c1) \<Rightarrow> (Inl err, pg\<lparr>console := c1\<rparr>)
      | (Inr price, c1) \<Rightarrow>
          (case fetchWeedSupply rt net c1 of
             (Inl err, c2) \<Rightarrow> (Inl err, pg\<lparr>console := c2\<rparr>)
           | (Inr supply, c2) \<Rightarrow>
               (case show_price rt price (pg\<lparr>console := c2\<rparr>) of
                  (Inl err, pg1) \<Rightarrow> (Inl err, pg1)
                | (Inr u, pg1) \<Rightarrow> show_supply rt supply pg1)))"

section \<open>The stubs\<close>

text \<open>
  \<^verbatim>\<open>getMintBurnEvents(limit = 100)\<close>: an argument that is \<^verbatim>\<open>undefined\<close> (or left
  out) takes the default; the body returns \<^verbatim>\<open>null\<close>.
\<close>

definition getMintBurnEvents :: "jsval \<Rightarrow> jsval outcome" where
  "getMintBurnEvents limit_arg =
     (let limit = (if limit_arg = JUndefined then JNum (Fin 100) else limit_arg)
      in Inr JNull)"

definition getPackDistribution :: "jsval \<Rightarrow> jsval outcome" where
  "getPackDistribution programId = Inr JNull"

section \<open>Notions used in the statements\<close>

text \<open>A Number above zero.\<close>

fun positive :: "jsnum \<Rightarrow> bool" where
  "positive NaN = False"
| "positive (Infinity neg) = (\<not> neg)"
| "positive (Fin q) = (0 < q)"

text \<open>
  The body of an RPC response has a \<^verbatim>\<open>result.value\<close>: the two reads
  \<^verbatim>\<open>data.result\<close> and \<^verbatim>\<open>.value\<close> succeed and give something to read
  \<^verbatim>\<open>uiAmountString\<close> from.
\<close>

definition value_exists :: "jsval \<Rightarrow> bool" where
  "value_exists data =
     (\<not> nullish data \<and> \<not> nullish (get_prop data ''result'')
      \<and> \<not> nullish (get_prop (get_prop data ''result'') ''value''))"

definition uiAmountString_of :: "jsval \<Rightarrow> jsval" where
  "uiAmountString_of data =
     get_prop (get_prop (get_prop data ''result'') ''value'') ''uiAmountString''"

text \<open>
  A runtime to instantiate the theorems at. Its rounding is exact, which is what every
  runtime does on a value that is a double; the two printers give a fixed text and are
  not reached at the inputs used below.
\<close>

definition test_runtime :: runtime where
  "test_runtime =
     \<lparr> roundNumber = Fin,
       finiteToString = (\<lambda>q. ''?''),
       toLocaleString = (\<lambda>v. Inr ''?'') \<rparr>"

text \<open>A network that answers every request with the same response.\<close>

definition answering :: "response \<Rightarrow> network" where
  "answering res = (\<lambda>req. Inr res)"

text \<open>A network on which every request fails.\<close>

definition unreachable :: "js_error \<Rightarrow> network" where
  "unreachable err = (\<lambda>req. Inl err)"

text \<open>
  A network on which the price service of \<^verbatim>\<open>main.js\<close> answers and nothing else can be
  reached.
\<close>

definition price_only :: "response \<Rightarrow> network" where
  "price_only res = (\<lambda>req. if req = price_request_v4 then Inr res else Inl NetworkError)"

text \<open>
  The bodies \<^verbatim>\<open>{"data": {"<mint>": {"price": v}}}\<close> and
  \<^verbatim>\<open>{"result": {"value": v}}\<close>.
\<close>

definition quote_body :: "jsval \<Rightarrow> jsval" where
  "quote_body v = JObj [(''data'', JObj [(WEED_MINT_ADDRESS, JObj [(''price'', v)])])]"

definition supply_body :: "jsval \<Rightarrow> jsval" where
  "supply_body v = JObj [(''result'', JObj [(''value'', v)])]"

text \<open>A page with both display elements, and a page with neither.\<close>

definition loading_page :: page where
  "loading_page =
     \<lparr> console = [],
       document = [''weed-price'' \<mapsto> ''Loading...'', ''current-supply'' \<mapsto> ''Loading...''] \<rparr>"

definition empty_page :: page where
  "empty_page = \<lparr> console = [], document = Map.empty \<rparr>"

section \<open>The handler\<close>

lemma try_log_null_Inl: "try_log_null msg (Inl err) c = (Inr JNull, c @ [(msg, err)])"
  by (simp add: try_log_null_def console_error_def)

lemma try_log_null_Inr: "try_log_null msg (Inr v) c = (Inr v, c)"
  by (simp add: try_log_null_def)

lemma try_log_null_fulfils: "\<exists>v c'. try_log_null msg attempt c = (Inr v, c')"
  by (cases attempt) (simp_all add: try_log_null_Inl try_log_null_Inr)

lemma fst_try_log_null: "fst (try_log_null msg attempt c) = fst (try_log_null msg attempt c')"
  by (cases attempt) (simp_all add: try_log_null_Inl try_log_null_Inr)

section \<open>Properties of the price fetcher\<close>

lemma price_attempt_parsed:
  "net req = Inr res \<Longrightarrow> json res = Inr data \<Longrightarrow> price_attempt req net = Inr (price_of data)"
  by (simp add: price_attempt_def)

lemma price_attempt_rejected: "net req = Inl err \<Longrightarrow> price_attempt req net = Inl err"
  by (simp add: price_attempt_def)

lemma price_attempt_unparseable:
  "net req = Inr res \<Longrightarrow> json res = Inl err \<Longrightarrow> price_attempt req net = Inl err"
  by (simp add: price_attempt_def)

lemma price_field_of_object:
  assumes "map_of kvs ''data'' = Some (JObj quotes)"
    and "map_of quotes WEED_MINT_ADDRESS = Some (JObj priceInfo)"
    and "map_of priceInfo ''price'' = Some v"
  shows "opt_get (priceInfo_of (JObj kvs)) ''price'' = v"
  using assms by (simp add: priceInfo_of_def opt_get_def nullish_def)

lemma price_of_truthy:
  "truthy (opt_get (priceInfo_of data) ''price'') \<Longrightarrow>
   price_of data = opt_get (priceInfo_of data) ''price''"
  by (simp add: price_of_def js_or_def)

lemma price_of_falsy:
  "\<not> truthy (opt_get (priceInfo_of data) ''price'') \<Longrightarrow> price_of data = JNull"
  by (simp add: price_of_def js_or_def)

lemma positive_truthy: "positive p \<Longrightarrow> truthy (JNum p)"
  by (cases p) auto

text \<open>
  Claim C4. For every well-formed price-service response that maps the token identifier
  to a record with a positive numeric \<^verbatim>\<open>price\<close> field, the price fetcher (either of the
  two) returns exactly that number, and logs nothing.
\<close>

theorem price_fetcher_positive_number:
  assumes "json res = Inr (JObj kvs)"
    and "map_of kvs ''data'' = Some (JObj quotes)"
    and "map_of quotes WEED_MINT_ADDRESS = Some (JObj priceInfo)"
    and "map_of priceInfo ''price'' = Some (JNum p)"
    and "positive p"
  shows "(net price_request_v4 = Inr res \<longrightarrow> fetchWeedPrice net c = (Inr (JNum p), c)) \<and>
         (net price_request_v3 = Inr res \<longrightarrow> getWeedPrice net c = (Inr (JNum p), c))"
proof -
  have "opt_get (priceInfo_of (JObj kvs)) ''price'' = JNum p"
    using assms(2-4) by (rule price_field_of_object)
  with assms(5) have "price_of (JObj kvs) = JNum p"
    by (simp add: price_of_truthy positive_truthy)
  with assms(1) show ?thesis
    by (simp add: fetchWeedPrice_def getWeedPrice_def price_attempt_parsed try_log_null_Inr)
qed

text \<open>
  The instance is the first end-to-end scenario: the price is the double that the JSON
  number \<^verbatim>\<open>0.0042\<close> denotes.
\<close>

theorem price_fetcher_positive_number_witness:
  "fetchWeedPrice
     (answering \<lparr>status = 200,
                  json = Inr (quote_body (JNum (Fin (4842270319348757 / 1152921504606846976))))\<rparr>) []
     = (Inr (JNum (Fin (4842270319348757 / 1152921504606846976))), []) \<and>
   getWeedPrice
     (answering \<lparr>status = 200,
                  json = Inr (quote_body (JNum (Fin (4842270319348757 / 1152921504606846976))))\<rparr>) []
     = (Inr (JNum (Fin (4842270319348757 / 1152921504606846976))), [])"
  using price_fetcher_positive_number
    [of "\<lparr>status = 200,
           json = Inr (quote_body (JNum (Fin (4842270319348757 / 1152921504606846976))))\<rparr>"
        "[(''data'', JObj [(WEED_MINT_ADDRESS,
             JObj [(''price'', JNum (Fin (4842270319348757 / 1152921504606846976)))])])]"
        "[(WEED_MINT_ADDRESS,
             JObj [(''price'', JNum (Fin (4842270319348757 / 1152921504606846976)))])]"
        "[(''price'', JNum (Fin (4842270319348757 / 1152921504606846976)))]"
        "Fin (4842270319348757 / 1152921504606846976)"
        "answering \<lparr>status = 200,
           json = Inr (quote_body (JNum (Fin (4842270319348757 / 1152921504606846976))))\<rparr>" "[]"]
  by (simp add: quote_body_def answering_def)

text \<open>
  Claim C2. For every price-service response in which the token identifier's entry is
  missing, or the \<^verbatim>\<open>price\<close> field is absent or falsy (the number 0 included), the
  price fetcher returns \<^verbatim>\<open>null\<close>.
\<close>

theorem price_fetcher_missing_or_falsy:
  assumes "json res = Inr data"
    and "priceInfo_of data = JUndefined
         \<or> opt_get (priceInfo_of data) ''price'' = JUndefined
         \<or> \<not> truthy (opt_get (priceInfo_of data) ''price'')"
  shows "(net price_request_v4 = Inr res \<longrightarrow> fetchWeedPrice net c = (Inr JNull, c)) \<and>
         (net price_request_v3 = Inr res \<longrightarrow> getWeedPrice net c = (Inr JNull, c))"
proof -
  from assms(2) have "\<not> truthy (opt_get (priceInfo_of data) ''price'')"
    by (auto simp: opt_get_def nullish_def)
  then have "price_of data = JNull"
    by (rule price_of_falsy)
  with assms(1) show ?thesis
    by (simp add: fetchWeedPrice_def getWeedPrice_def price_attempt_parsed try_log_null_Inr)
qed

text \<open>An entry that is missing, a \<^verbatim>\<open>price\<close> that is absent, and the price 0.\<close>

theorem price_fetcher_missing_or_falsy_witness:
  "fetchWeedPrice (answering \<lparr>status = 200, json = Inr (JObj [(''data'', JObj [])])\<rparr>) []
     = (Inr JNull, []) \<and>
   getWeedPrice (answering \<lparr>status = 200, json = Inr (quote_body JUndefined)\<rparr>) []
     = (Inr JNull, []) \<and>
   fetchWeedPrice (answering \<lparr>status = 200, json = Inr (quote_body (JNum (Fin 0)))\<rparr>) []
     = (Inr JNull, [])"
proof -
  have 1: "priceInfo_of (JObj [(''data'', JObj [])]) = JUndefined"
    by (simp add: priceInfo_of_def opt_get_def nullish_def)
  have 2: "opt_get (priceInfo_of (quote_body JUndefined)) ''price'' = JUndefined"
    by (simp add: quote_body_def priceInfo_of_def opt_get_def nullish_def)
  have 3: "\<not> truthy (opt_get (priceInfo_of (quote_body (JNum (Fin 0)))) ''price'')"
    by (simp add: quote_body_def priceInfo_of_def opt_get_def nullish_def)
  show ?thesis
    using price_fetcher_missing_or_falsy
        [of "\<lparr>status = 200, json = Inr (JObj [(''data'', JObj [])])\<rparr>"
            "JObj [(''data'', JObj [])]"
            "answering \<lparr>status = 200, json = Inr (JObj [(''data'', JObj [])])\<rparr>" "[]"]
      price_fetcher_missing_or_falsy
        [of "\<lparr>status = 200, json = Inr (quote_body JUndefined)\<rparr>" "quote_body JUndefined"
            "answering \<lparr>status = 200, json = Inr (quote_body JUndefined)\<rparr>" "[]"]
      price_fetcher_missing_or_falsy
        [of "\<lparr>status = 200, json = Inr (quote_body (JNum (Fin 0)))\<rparr>"
            "quote_body (JNum (Fin 0))"
            "answering \<lparr>status = 200, json = Inr (quote_body (JNum (Fin 0)))\<rparr>" "[]"]
      1 2 3
    by (simp add: answering_def)
qed

text \<open>
  Claim C10. For every truthy value \<open>v\<close> in the response's \<^verbatim>\<open>price\<close> field, a negative
  number or a string as well, the price fetcher returns \<open>v\<close> unchanged: nothing checks
  that it is a number.
\<close>

theorem price_fetcher_truthy_unchanged:
  assumes "json res = Inr data"
    and "opt_get (priceInfo_of data) ''price'' = v"
    and "truthy v"
  shows "(net price_request_v4 = Inr res \<longrightarrow> fetchWeedPrice net c = (Inr v, c)) \<and>
         (net price_request_v3 = Inr res \<longrightarrow> getWeedPrice net c = (Inr v, c))"
proof -
  from assms(2,3) have "price_of data = v"
    by (simp add: price_of_truthy)
  with assms(1) show ?thesis
    by (simp add: fetchWeedPrice_def getWeedPrice_def price_attempt_parsed try_log_null_Inr)
qed

theorem price_fetcher_truthy_unchanged_witness:
  "fetchWeedPrice (answering \<lparr>status = 200, json = Inr (quote_body (JStr ''abc''))\<rparr>) []
     = (Inr (JStr ''abc''), []) \<and>
   getWeedPrice (answering \<lparr>status = 200, json = Inr (quote_body (JNum (Fin (- 3 / 2))))\<rparr>) []
     = (Inr (JNum (Fin (- 3 / 2))), [])"
proof -
  have 1: "opt_get (priceInfo_of (quote_body (JStr ''abc''))) ''price'' = JStr ''abc''"
    by (simp add: quote_body_def priceInfo_of_def opt_get_def nullish_def)
  have 2: "opt_get (priceInfo_of (quote_body (JNum (Fin (- 3 / 2))))) ''price''
             = JNum (Fin (- 3 / 2))"
    by (simp add: quote_body_def priceInfo_of_def opt_get_def nullish_def)
  show ?thesis
    using price_fetcher_truthy_unchanged
        [of "\<lparr>status = 200, json = Inr (quote_body (JStr ''abc''))\<rparr>"
            "quote_body (JStr ''abc'')" "JStr ''abc''"
            "answering \<lparr>status = 200, json = Inr (quote_body (JStr ''abc''))\<rparr>" "[]"]
      price_fetcher_truthy_unchanged
        [of "\<lparr>status = 200, json = Inr (quote_body (JNum (Fin (- 3 / 2))))\<rparr>"
            "quote_body (JNum (Fin (- 3 / 2)))" "JNum (Fin (- 3 / 2))"
            "answering \<lparr>status = 200, json = Inr (quote_body (JNum (Fin (- 3 / 2))))\<rparr>" "[]"]
      1 2
    by (simp add: answering_def)
qed

section \<open>Properties of the supply fetcher\<close>

lemma supply_attempt_rejected:
  "net (rpc_request e) = Inl err \<Longrightarrow> supply_attempt e rt net = Inl err"
  by (simp add: supply_attempt_def)

lemma supply_attempt_status:
  "net (rpc_request e) = Inr res \<Longrightarrow> \<not> ok res \<Longrightarrow>
   supply_attempt e rt net = Inl (Error (''HTTP '' @ decimal (status res)))"
  by (simp add: supply_attempt_def)

lemma supply_attempt_unparseable:
  "net (rpc_request e) = Inr res \<Longrightarrow> ok res \<Longrightarrow> json res = Inl err \<Longrightarrow>
   supply_attempt e rt net = Inl err"
  by (simp add: supply_attempt_def)

lemma supply_attempt_parsed:
  "net (rpc_request e) = Inr res \<Longrightarrow> ok res \<Longrightarrow> json res = Inr data \<Longrightarrow>
   supply_attempt e rt net = supply_of rt data"
  by (simp add: supply_attempt_def)

lemma supply_of_exists:
  "value_exists data \<Longrightarrow> supply_of rt data = parseFloat rt (uiAmountString_of data)"
  by (simp add: value_exists_def uiAmountString_of_def supply_of_def get_member_def)

lemma supply_of_missing: "\<not> value_exists data \<Longrightarrow> supply_of rt data = Inl TypeError"
  by (auto simp: value_exists_def supply_of_def get_member_def)

lemma value_exists_object:
  assumes "map_of kvs ''result'' = Some (JObj result)"
    and "map_of result ''value'' = Some (JObj val)"
  shows "value_exists (JObj kvs)"
    and "uiAmountString_of (JObj kvs) = get_prop (JObj val) ''uiAmountString''"
  using assms by (simp_all add: value_exists_def uiAmountString_of_def nullish_def)

lemma parseFloat_JStr: "parseFloat rt (JStr s) = Inr (parseFloat_string rt s)"
  by (simp add: parseFloat_def)

lemma parseFloat_JUndefined: "parseFloat rt JUndefined = Inr NaN"
  by (simp add: parseFloat_def parseFloat_string_def is_space_def is_digit_def)

lemma parseFloat_string_sample:
  "parseFloat_string test_runtime ''123456789.125'' = Fin (987654313 / 8)"
  by (simp add: parseFloat_string_def test_runtime_def is_space_def is_digit_def
      digits_value_def pow10_def)

lemma parseFloat_string_no_number: "parseFloat_string rt ''n/a'' = NaN"
  by (simp add: parseFloat_string_def is_space_def is_digit_def)

lemma getTokenSupply_total:
  assumes "getTokenSupply env rt net c = (Inr v, c')" and "v \<noteq> JNull"
  shows "get_prop v ''total'' = JNum (Fin 240000000)"
  using assms
  by (auto simp: getTokenSupply_def try_log_null_def supply_info_def split: sum.splits)

text \<open>
  Claim C1, as amended. For every successful (2xx) JSON-RPC response whose body has a
  \<^verbatim>\<open>result.value.uiAmountString\<close> that parses, \<^verbatim>\<open>getTokenSupply\<close> returns the record
  \<^verbatim>\<open>{total: 240000000, supply: p}\<close> where \<open>p\<close> is \<^verbatim>\<open>parseFloat\<close> of that string, and
  \<^verbatim>\<open>total\<close> is 240000000 in every result of \<^verbatim>\<open>getTokenSupply\<close> that is not
  \<^verbatim>\<open>null\<close>; the browser's \<^verbatim>\<open>fetchWeedSupply\<close> returns \<open>p\<close> itself, without a record
  around it.
\<close>

theorem supply_fetcher_parsed:
  assumes "ok res"
    and "json res = Inr (JObj kvs)"
    and "map_of kvs ''result'' = Some (JObj result)"
    and "map_of result ''value'' = Some (JObj val)"
    and "map_of val ''uiAmountString'' = Some (JStr s)"
    and "parseFloat_string rt s \<noteq> NaN"
  shows "(net (rpc_request (RPC_ENDPOINT env)) = Inr res \<longrightarrow>
            getTokenSupply env rt net c = (Inr (supply_info (parseFloat_string rt s)), c)) \<and>
         (net (rpc_request default_endpoint) = Inr res \<longrightarrow>
            fetchWeedSupply rt net c = (Inr (JNum (parseFloat_string rt s)), c)) \<and>
         (\<forall>v c'. getTokenSupply env rt net c = (Inr v, c') \<and> v \<noteq> JNull \<longrightarrow>
            get_prop v ''total'' = JNum (Fin 240000000))"
proof -
  have "supply_of rt (JObj kvs) = parseFloat rt (get_prop (JObj val) ''uiAmountString'')"
    using value_exists_object [OF assms(3,4)] by (simp add: supply_of_exists)
  with assms(5) have "supply_of rt (JObj kvs) = Inr (parseFloat_string rt s)"
    by (simp add: parseFloat_JStr)
  with assms(1,2)
  have "(net (rpc_request (RPC_ENDPOINT env)) = Inr res \<longrightarrow>
            getTokenSupply env rt net c = (Inr (supply_info (parseFloat_string rt s)), c)) \<and>
         (net (rpc_request default_endpoint) = Inr res \<longrightarrow>
            fetchWeedSupply rt net c = (Inr (JNum (parseFloat_string rt s)), c))"
    by (simp add: getTokenSupply_def fetchWeedSupply_def supply_attempt_parsed try_log_null_Inr)
  moreover
  have "\<forall>v c'. getTokenSupply env rt net c = (Inr v, c') \<and> v \<noteq> JNull \<longrightarrow>
            get_prop v ''total'' = JNum (Fin 240000000)"
    using getTokenSupply_total by blast
  ultimately show ?thesis
    by blast
qed

text \<open>The amount \<^verbatim>\<open>123456789.125\<close> is a double, so every runtime parses it exactly.\<close>

theorem supply_fetcher_parsed_witness:
  "getTokenSupply None test_runtime
     (answering \<lparr>status = 200,
                  json = Inr (supply_body (JObj [(''uiAmountString'', JStr ''123456789.125'')]))\<rparr>) []
     = (Inr (JObj [(''total'', JNum (Fin 240000000)), (''supply'', JNum (Fin (987654313 / 8)))]),
        []) \<and>
   fetchWeedSupply test_runtime
     (answering \<lparr>status = 200,
                  json = Inr (supply_body (JObj [(''uiAmountString'', JStr ''123456789.125'')]))\<rparr>) []
     = (Inr (JNum (Fin (987654313 / 8))), [])"
  using supply_fetcher_parsed
      [of "\<lparr>status = 200,
             json = Inr (supply_body (JObj [(''uiAmountString'', JStr ''123456789.125'')]))\<rparr>"
          "[(''result'', JObj [(''value'', JObj [(''uiAmountString'', JStr ''123456789.125'')])])]"
          "[(''value'', JObj [(''uiAmountString'', JStr ''123456789.125'')])]"
          "[(''uiAmountString'', JStr ''123456789.125'')]"
          "''123456789.125''" test_runtime
          "answering \<lparr>status = 200,
             json = Inr (supply_body (JObj [(''uiAmountString'', JStr ''123456789.125'')]))\<rparr>"
          None "[]"]
    parseFloat_string_sample
  by (simp add: answering_def supply_body_def ok_def supply_info_def)

text \<open>
  Claim C1 as stated fails on \<^verbatim>\<open>fetchWeedSupply\<close>, the supply fetcher of \<^verbatim>\<open>main.js\<close>:
  on a successful response with a parseable amount it returns the Number, which is not
  the record and has no \<^verbatim>\<open>total\<close>.
\<close>

theorem supply_fetcher_parsed_counterexample:
  "fst (fetchWeedSupply test_runtime
          (answering \<lparr>status = 200,
                       json = Inr (supply_body (JObj [(''uiAmountString'', JStr ''123456789.125'')]))\<rparr>)
          [])
     = Inr (JNum (Fin (987654313 / 8))) \<and>
   fst (fetchWeedSupply test_runtime
          (answering \<lparr>status = 200,
                       json = Inr (supply_body (JObj [(''uiAmountString'', JStr ''123456789.125'')]))\<rparr>)
          [])
     \<noteq> Inr (supply_info (parseFloat_string test_runtime ''123456789.125'')) \<and>
   get_prop (JNum (Fin (987654313 / 8))) ''total'' = JUndefined"
proof -
  have "supply_of test_runtime (supply_body (JObj [(''uiAmountString'', JStr ''123456789.125'')]))
          = Inr (Fin (987654313 / 8))"
    by (simp add: supply_of_def supply_body_def get_member_def nullish_def parseFloat_JStr
        parseFloat_string_sample)
  then show ?thesis
    by (simp add: fetchWeedSupply_def supply_attempt_def answering_def ok_def try_log_null_Inr
        supply_info_def)
qed

text \<open>
  Claim C3, as amended. A 2xx response whose body does not parse, or whose parsed body
  has no \<^verbatim>\<open>result.value\<close> to read from (the body, \<^verbatim>\<open>result\<close> or \<^verbatim>\<open>result.value\<close> is
  \<^verbatim>\<open>null\<close> or \<^verbatim>\<open>undefined\<close>), makes the supply fetcher log the error and return
  \<^verbatim>\<open>null\<close>. When \<^verbatim>\<open>result.value\<close> exists and its \<^verbatim>\<open>uiAmountString\<close> is absent or is a
  string that does not start with a number, nothing is thrown and the result carries
  \<^verbatim>\<open>NaN\<close>: \<^verbatim>\<open>{total: 240000000, supply: NaN}\<close> from \<^verbatim>\<open>getTokenSupply\<close>, \<^verbatim>\<open>NaN\<close> from
  \<^verbatim>\<open>fetchWeedSupply\<close>.
\<close>

theorem supply_fetcher_incomplete_body:
  assumes "ok res"
  shows "(json res = Inr data \<and> value_exists data \<and>
            (uiAmountString_of data = JUndefined \<or>
             (uiAmountString_of data = JStr s \<and> parseFloat_string rt s = NaN)) \<longrightarrow>
          (net (rpc_request (RPC_ENDPOINT env)) = Inr res \<longrightarrow>
             getTokenSupply env rt net c = (Inr (supply_info NaN), c)) \<and>
          (net (rpc_request default_endpoint) = Inr res \<longrightarrow>
             fetchWeedSupply rt net c = (Inr (JNum NaN), c))) \<and>
         (json res = Inl err \<or> (json res = Inr data \<and> \<not> value_exists data) \<longrightarrow>
          (net (rpc_request (RPC_ENDPOINT env)) = Inr res \<longrightarrow>
             (\<exists>e. getTokenSupply env rt net c =
                    (Inr JNull, c @ [(''Failed to fetch token supply:'', e)]))) \<and>
          (net (rpc_request default_endpoint) = Inr res \<longrightarrow>
             (\<exists>e. fetchWeedSupply rt net c =
                    (Inr JNull, c @ [(''Failed to fetch token supply:'', e)]))))"
proof -
  have nan: "supply_of rt data = Inr NaN"
    if "value_exists data"
      and "uiAmountString_of data = JUndefined \<or>
           (uiAmountString_of data = JStr s \<and> parseFloat_string rt s = NaN)"
    using that by (auto simp: supply_of_exists parseFloat_JUndefined parseFloat_JStr)
  have a: "supply_attempt e rt net = Inr NaN"
    if "json res = Inr data" and "value_exists data"
      and "uiAmountString_of data = JUndefined \<or>
           (uiAmountString_of data = JStr s \<and> parseFloat_string rt s = NaN)"
      and "net (rpc_request e) = Inr res" for e
    using that assms nan by (simp add: supply_attempt_parsed)
  have b: "\<exists>x. supply_attempt e rt net = Inl x"
    if "json res = Inl err \<or> (json res = Inr data \<and> \<not> value_exists data)"
      and "net (rpc_request e) = Inr res" for e
    using that assms
    by (auto simp: supply_attempt_unparseable supply_attempt_parsed supply_of_missing)
  show ?thesis
  proof (intro conjI impI)
    assume h: "json res = Inr data \<and> value_exists data \<and>
            (uiAmountString_of data = JUndefined \<or>
             (uiAmountString_of data = JStr s \<and> parseFloat_string rt s = NaN))"
    { assume "net (rpc_request (RPC_ENDPOINT env)) = Inr res"
      with h a show "getTokenSupply env rt net c = (Inr (supply_info NaN), c)"
        by (simp add: getTokenSupply_def try_log_null_Inr) }
    { assume "net (rpc_request default_endpoint) = Inr res"
      with h a show "fetchWeedSupply rt net c = (Inr (JNum NaN), c)"
        by (simp add: fetchWeedSupply_def try_log_null_Inr) }
  next
    assume h: "json res = Inl err \<or> (json res = Inr data \<and> \<not> value_exists data)"
    { assume "net (rpc_request (RPC_ENDPOINT env)) = Inr res"
      with h b obtain x where "supply_attempt (RPC_ENDPOINT env) rt net = Inl x"
        by blast
      then show "\<exists>e. getTokenSupply env rt net c =
                    (Inr JNull, c @ [(''Failed to fetch token supply:'', e)])"
        by (simp add: getTokenSupply_def try_log_null_Inl) }
    { assume "net (rpc_request default_endpoint) = Inr res"
      with h b obtain x where "supply_attempt default_endpoint rt net = Inl x"
        by blast
      then show "\<exists>e. fetchWeedSupply rt net c =
                    (Inr JNull, c @ [(''Failed to fetch token supply:'', e)])"
        by (simp add: fetchWeedSupply_def try_log_null_Inl) }
  qed
qed

text \<open>
  An amount that is no number gives \<^verbatim>\<open>NaN\<close>; a JSON-RPC error body, which has no
  \<^verbatim>\<open>result\<close>, gives \<^verbatim>\<open>null\<close>.
\<close>

theorem supply_fetcher_incomplete_body_witness:
  "getTokenSupply None test_runtime
     (answering \<lparr>status = 200,
                  json = Inr (supply_body (JObj [(''uiAmountString'', JStr ''n/a'')]))\<rparr>) []
     = (Inr (JObj [(''total'', JNum (Fin 240000000)), (''supply'', JNum NaN)]), []) \<and>
   fetchWeedSupply test_runtime
     (answering \<lparr>status = 200,
                  json = Inr (supply_body (JObj [(''uiAmountString'', JStr ''n/a'')]))\<rparr>) []
     = (Inr (JNum NaN), []) \<and>
   (\<exists>e. getTokenSupply None test_runtime
          (answering \<lparr>status = 200,
                       json = Inr (JObj [(''error'', JObj [(''code'', JNum (Fin (- 32602)))])])\<rparr>) []
        = (Inr JNull, [(''Failed to fetch token supply:'', e)])) \<and>
   (\<exists>e. fetchWeedSupply test_runtime
          (answering \<lparr>status = 200,
                       json = Inr (JObj [(''error'', JObj [(''code'', JNum (Fin (- 32602)))])])\<rparr>) []
        = (Inr JNull, [(''Failed to fetch token supply:'', e)]))"
proof -
  have 1: "value_exists (supply_body (JObj [(''uiAmountString'', JStr ''n/a'')]))"
    by (simp add: value_exists_def supply_body_def nullish_def)
  have 2: "uiAmountString_of (supply_body (JObj [(''uiAmountString'', JStr ''n/a'')]))
             = JStr ''n/a''"
    by (simp add: uiAmountString_of_def supply_body_def)
  have 3: "\<not> value_exists (JObj [(''error'', JObj [(''code'', JNum (Fin (- 32602)))])])"
    by (simp add: value_exists_def nullish_def)
  have 4: "ok \<lparr>status = 200, json = j\<rparr>" for j
    by (simp add: ok_def)
  show ?thesis
    using supply_fetcher_incomplete_body
        [OF 4, of "Inr (supply_body (JObj [(''uiAmountString'', JStr ''n/a'')]))"
            "supply_body (JObj [(''uiAmountString'', JStr ''n/a'')])" "''n/a''" test_runtime
            "answering \<lparr>status = 200,
               json = Inr (supply_body (JObj [(''uiAmountString'', JStr ''n/a'')]))\<rparr>"
            None "[]"]
      supply_fetcher_incomplete_body
        [OF 4, of "Inr (JObj [(''error'', JObj [(''code'', JNum (Fin (- 32602)))])])"
            "JObj [(''error'', JObj [(''code'', JNum (Fin (- 32602)))])]" _ test_runtime
            "answering \<lparr>status = 200,
               json = Inr (JObj [(''error'', JObj [(''code'', JNum (Fin (- 32602)))])])\<rparr>"
            None "[]"]
      1 2 3 parseFloat_string_no_number [of test_runtime]
    by (simp add: answering_def supply_info_def)
qed

text \<open>
  Claim C3 as stated fails: on a 2xx response whose \<^verbatim>\<open>result.value\<close> has an
  \<^verbatim>\<open>amount\<close> and \<^verbatim>\<open>decimals\<close> but no \<^verbatim>\<open>uiAmountString\<close>, both fetchers return a
  result that carries \<^verbatim>\<open>NaN\<close>, not \<^verbatim>\<open>null\<close>.
\<close>

theorem supply_fetcher_incomplete_body_counterexample:
  "fst (getTokenSupply None test_runtime
          (answering \<lparr>status = 200,
                       json = Inr (supply_body (JObj [(''amount'', JStr ''1000''),
                                                      (''decimals'', JNum (Fin 6))]))\<rparr>) [])
     = Inr (JObj [(''total'', JNum (Fin 240000000)), (''supply'', JNum NaN)]) \<and>
   fst (getTokenSupply None test_runtime
          (answering \<lparr>status = 200,
                       json = Inr (supply_body (JObj [(''amount'', JStr ''1000''),
                                                      (''decimals'', JNum (Fin 6))]))\<rparr>) [])
     \<noteq> Inr JNull \<and>
   fst (fetchWeedSupply test_runtime
          (answering \<lparr>status = 200,
                       json = Inr (supply_body (JObj [(''amount'', JStr ''1000''),
                                                      (''decimals'', JNum (Fin 6))]))\<rparr>) [])
     = Inr (JNum NaN)"
proof -
  have "supply_of test_runtime
          (supply_body (JObj [(''amount'', JStr ''1000''), (''decimals'', JNum (Fin 6))]))
          = Inr NaN"
    by (simp add: supply_of_def supply_body_def get_member_def nullish_def parseFloat_JUndefined)
  then show ?thesis
    by (simp add: getTokenSupply_def fetchWeedSupply_def supply_attempt_def answering_def ok_def
        try_log_null_Inr supply_info_def)
qed

text \<open>
  Claim C5. For every HTTP response from the RPC endpoint with a status outside 200 to
  299, the supply fetcher (either of the two) returns \<^verbatim>\<open>null\<close>, after logging the error
  that carries the status.
\<close>

theorem supply_fetcher_non_2xx:
  assumes "status res < 200 \<or> 299 < status res"
  shows "(net (rpc_request (RPC_ENDPOINT env)) = Inr res \<longrightarrow>
            getTokenSupply env rt net c =
              (Inr JNull, c @ [(''Failed to fetch token supply:'',
                                Error (''HTTP '' @ decimal (status res)))])) \<and>
         (net (rpc_request default_endpoint) = Inr res \<longrightarrow>
            fetchWeedSupply rt net c =
              (Inr JNull, c @ [(''Failed to fetch token supply:'',
                                Error (''HTTP '' @ decimal (status res)))]))"
proof -
  from assms have "\<not> ok res"
    by (auto simp: ok_def)
  then show ?thesis
    by (simp add: getTokenSupply_def fetchWeedSupply_def supply_attempt_status try_log_null_Inl)
qed

theorem supply_fetcher_non_2xx_witness:
  "getTokenSupply None test_runtime (answering \<lparr>status = 429, json = Inr JNull\<rparr>) []
     = (Inr JNull, [(''Failed to fetch token supply:'', Error ''HTTP 429'')]) \<and>
   fetchWeedSupply test_runtime (answering \<lparr>status = 429, json = Inr JNull\<rparr>) []
     = (Inr JNull, [(''Failed to fetch token supply:'', Error ''HTTP 429'')])"
proof -
  have d: "decimal 429 = ''429''"
    by code_simp
  show ?thesis
    using supply_fetcher_non_2xx
        [of "\<lparr>status = 429, json = Inr JNull\<rparr>" "answering \<lparr>status = 429, json = Inr JNull\<rparr>"
            None test_runtime "[]"] d
    by (simp add: answering_def)
qed

section \<open>No fetcher raises\<close>

text \<open>
  Claim C6. Whatever the network call does, the price and supply fetchers never raise to
  the caller: each of the four returns a value. When the request fails in transport,
  when the body is not parseable JSON, and when anything else in the \<^verbatim>\<open>try\<close> block
  throws, the fetcher logs the error and returns \<^verbatim>\<open>null\<close>.
\<close>

theorem fetchers_never_raise:
  "(\<exists>v c'. fetchWeedPrice net c = (Inr v, c')) \<and>
   (\<exists>v c'. getWeedPrice net c = (Inr v, c')) \<and>
   (\<exists>v c'. fetchWeedSupply rt net c = (Inr v, c')) \<and>
   (\<exists>v c'. getTokenSupply env rt net c = (Inr v, c')) \<and>
   (net price_request_v4 = Inl err \<or> (net price_request_v4 = Inr res \<and> json res = Inl err)
      \<or> price_attempt price_request_v4 net = Inl err \<longrightarrow>
      fetchWeedPrice net c = (Inr JNull, c @ [(''Failed to fetch WEED price:'', err)])) \<and>
   (net price_request_v3 = Inl err \<or> (net price_request_v3 = Inr res \<and> json res = Inl err)
      \<or> price_attempt price_request_v3 net = Inl err \<longrightarrow>
      getWeedPrice net c = (Inr JNull, c @ [(''Failed to fetch WEED price:'', err)])) \<and>
   (net (rpc_request default_endpoint) = Inl err
      \<or> (net (rpc_request default_endpoint) = Inr res \<and> ok res \<and> json res = Inl err)
      \<or> supply_attempt default_endpoint rt net = Inl err \<longrightarrow>
      fetchWeedSupply rt net c = (Inr JNull, c @ [(''Failed to fetch token supply:'', err)])) \<and>
   (net (rpc_request (RPC_ENDPOINT env)) = Inl err
      \<or> (net (rpc_request (RPC_ENDPOINT env)) = Inr res \<and> ok res \<and> json res = Inl err)
      \<or> supply_attempt (RPC_ENDPOINT env) rt net = Inl err \<longrightarrow>
      getTokenSupply env rt net c = (Inr JNull, c @ [(''Failed to fetch token supply:'', err)]))"
proof -
  have p: "price_attempt req net = Inl err"
    if "net req = Inl err \<or> (net req = Inr res \<and> json res = Inl err)
        \<or> price_attempt req net = Inl err" for req
    using that by (auto simp: price_attempt_rejected price_attempt_unparseable)
  have s: "supply_attempt e rt net = Inl err"
    if "net (rpc_request e) = Inl err
        \<or> (net (rpc_request e) = Inr res \<and> ok res \<and> json res = Inl err)
        \<or> supply_attempt e rt net = Inl err" for e
    using that by (auto simp: supply_attempt_rejected supply_attempt_unparseable)
  have "\<exists>v c'. fetchWeedPrice net c = (Inr v, c')"
    and "\<exists>v c'. getWeedPrice net c = (Inr v, c')"
    and "\<exists>v c'. fetchWeedSupply rt net c = (Inr v, c')"
    and "\<exists>v c'. getTokenSupply env rt net c = (Inr v, c')"
    by (simp_all add: fetchWeedPrice_def getWeedPrice_def fetchWeedSupply_def getTokenSupply_def
        try_log_null_fulfils)
  moreover
  have "fetchWeedPrice net c = (Inr JNull, c @ [(''Failed to fetch WEED price:'', err)])"
    if "net price_request_v4 = Inl err
        \<or> (net price_request_v4 = Inr res \<and> json res = Inl err)
        \<or> price_attempt price_request_v4 net = Inl err"
    using p [OF that] by (simp add: fetchWeedPrice_def try_log_null_Inl)
  moreover
  have "getWeedPrice net c = (Inr JNull, c @ [(''Failed to fetch WEED price:'', err)])"
    if "net price_request_v3 = Inl err
        \<or> (net price_request_v3 = Inr res \<and> json res = Inl err)
        \<or> price_attempt price_request_v3 net = Inl err"
    using p [OF that] by (simp add: getWeedPrice_def try_log_null_Inl)
  moreover
  have "fetchWeedSupply rt net c = (Inr JNull, c @ [(''Failed to fetch token supply:'', err)])"
    if "net (rpc_request default_endpoint) = Inl err
        \<or> (net (rpc_request default_endpoint) = Inr res \<and> ok res \<and> json res = Inl err)
        \<or> supply_attempt default_endpoint rt net = Inl err"
    using s [OF that] by (simp add: fetchWeedSupply_def try_log_null_Inl)
  moreover
  have "getTokenSupply env rt net c
          = (Inr JNull, c @ [(''Failed to fetch token supply:'', err)])"
    if "net (rpc_request (RPC_ENDPOINT env)) = Inl err
        \<or> (net (rpc_request (RPC_ENDPOINT env)) = Inr res \<and> ok res \<and> json res = Inl err)
        \<or> supply_attempt (RPC_ENDPOINT env) rt net = Inl err"
    using s [OF that] by (simp add: getTokenSupply_def try_log_null_Inl)
  ultimately show ?thesis
    by blast
qed

text \<open>A request that fails in transport, and a body that is not JSON.\<close>

theorem fetchers_never_raise_witness:
  "fetchWeedPrice (unreachable NetworkError) []
     = (Inr JNull, [(''Failed to fetch WEED price:'', NetworkError)]) \<and>
   getWeedPrice (answering \<lparr>status = 200, json = Inl SyntaxError\<rparr>) []
     = (Inr JNull, [(''Failed to fetch WEED price:'', SyntaxError)]) \<and>
   fetchWeedSupply test_runtime (answering \<lparr>status = 200, json = Inl SyntaxError\<rparr>) []
     = (Inr JNull, [(''Failed to fetch token supply:'', SyntaxError)]) \<and>
   getTokenSupply None test_runtime (unreachable NetworkError) []
     = (Inr JNull, [(''Failed to fetch token supply:'', NetworkError)])"
proof -
  have 1: "ok \<lparr>status = 200, json = Inl SyntaxError\<rparr>"
    by (simp add: ok_def)
  show ?thesis
    using fetchers_never_raise
        [of "unreachable NetworkError" "[]" test_runtime None NetworkError]
      fetchers_never_raise
        [of "answering \<lparr>status = 200, json = Inl SyntaxError\<rparr>" "[]" test_runtime None
            SyntaxError "\<lparr>status = 200, json = Inl SyntaxError\<rparr>"]
      1
    by (simp add: unreachable_def answering_def)
qed

section \<open>Properties of the dashboard\<close>

lemma fetchWeedPrice_fulfils: "\<exists>v c'. fetchWeedPrice net c = (Inr v, c')"
  by (simp add: fetchWeedPrice_def try_log_null_fulfils)

lemma fetchWeedSupply_fulfils: "\<exists>v c'. fetchWeedSupply rt net c = (Inr v, c')"
  by (simp add: fetchWeedSupply_def try_log_null_fulfils)

text \<open>What a fetcher returns does not depend on what the console holds.\<close>

lemma fetchWeedPrice_value: "fst (fetchWeedPrice net c) = fst (fetchWeedPrice net c')"
  unfolding fetchWeedPrice_def by (rule fst_try_log_null)

lemma fetchWeedSupply_value: "fst (fetchWeedSupply rt net c) = fst (fetchWeedSupply rt net c')"
  unfolding fetchWeedSupply_def by (rule fst_try_log_null)

lemma show_price_null: "show_price rt JNull pg = (Inr (), pg)"
  by (simp add: show_price_def)

lemma show_supply_null: "show_supply rt JNull pg = (Inr (), pg)"
  by (simp add: show_supply_def)

lemma show_price_absent:
  "document pg ''weed-price'' = None \<Longrightarrow> show_price rt price pg = (Inr (), pg)"
  by (simp add: show_price_def)

lemma show_supply_absent:
  "document pg ''current-supply'' = None \<Longrightarrow> show_supply rt amount pg = (Inr (), pg)"
  by (simp add: show_supply_def)

lemma show_price_elsewhere:
  "k \<noteq> ''weed-price'' \<Longrightarrow> document (snd (show_price rt price pg)) k = document pg k"
  by (simp add: show_price_def split: option.splits sum.splits)

lemma show_supply_elsewhere:
  "k \<noteq> ''current-supply'' \<Longrightarrow> document (snd (show_supply rt amount pg)) k = document pg k"
  by (simp add: show_supply_def split: option.splits sum.splits)

lemma show_price_number:
  "document pg ''weed-price'' = Some old \<Longrightarrow>
   show_price rt (JNum x) pg =
     (Inr (), pg\<lparr>document := (document pg)(''weed-price'' \<mapsto> ''$'' @ toFixed rt x 4)\<rparr>)"
  by (simp add: show_price_def)

lemma updateDashboard_steps:
  assumes "fetchWeedPrice net (console pg) = (Inr price, c1)"
    and "fetchWeedSupply rt net c1 = (Inr amount, c2)"
  shows "updateDashboard rt net pg =
           (case show_price rt price (pg\<lparr>console := c2\<rparr>) of
              (Inl err, pg1) \<Rightarrow> (Inl err, pg1)
            | (Inr u, pg1) \<Rightarrow> show_supply rt amount pg1)"
  using assms by (simp add: updateDashboard_def)

lemma updateDashboard_fetched:
  obtains price c1 amount c2 where
    "fetchWeedPrice net (console pg) = (Inr price, c1)"
    "fetchWeedSupply rt net c1 = (Inr amount, c2)"
    "updateDashboard rt net pg =
       (case show_price rt price (pg\<lparr>console := c2\<rparr>) of
          (Inl err, pg1) \<Rightarrow> (Inl err, pg1)
        | (Inr u, pg1) \<Rightarrow> show_supply rt amount pg1)"
proof -
  obtain price c1 where p: "fetchWeedPrice net (console pg) = (Inr price, c1)"
    using fetchWeedPrice_fulfils by blast
  obtain amount c2 where s: "fetchWeedSupply rt net c1 = (Inr amount, c2)"
    using fetchWeedSupply_fulfils by blast
  from p s show thesis
    by (rule that) (rule updateDashboard_steps [OF p s])
qed

lemma updateDashboard_supply_element:
  assumes "fst (fetchWeedSupply rt net c0) = Inr JNull"
  shows "document (snd (updateDashboard rt net pg)) ''current-supply''
           = document pg ''current-supply''"
proof -
  obtain price c1 amount c2 where
    s: "fetchWeedSupply rt net c1 = (Inr amount, c2)" and
    u: "updateDashboard rt net pg =
       (case show_price rt price (pg\<lparr>console := c2\<rparr>) of
          (Inl err, pg1) \<Rightarrow> (Inl err, pg1)
        | (Inr u, pg1) \<Rightarrow> show_supply rt amount pg1)"
    by (rule updateDashboard_fetched)
  from s assms fetchWeedSupply_value [of rt net c1 c0] have "amount = JNull"
    by simp
  have "document (snd (show_price rt price (pg\<lparr>console := c2\<rparr>))) ''current-supply''
          = document pg ''current-supply''"
    by (simp add: show_price_elsewhere)
  with u \<open>amount = JNull\<close> show ?thesis
    by (cases "show_price rt price (pg\<lparr>console := c2\<rparr>)")
       (auto simp: show_supply_null split: sum.splits)
qed

lemma updateDashboard_price_element:
  assumes "fst (fetchWeedPrice net c0) = Inr JNull"
  shows "document (snd (updateDashboard rt net pg)) ''weed-price'' = document pg ''weed-price''"
proof -
  obtain price c1 amount c2 where
    p: "fetchWeedPrice net (console pg) = (Inr price, c1)" and
    u: "updateDashboard rt net pg =
       (case show_price rt price (pg\<lparr>console := c2\<rparr>) of
          (Inl err, pg1) \<Rightarrow> (Inl err, pg1)
        | (Inr u, pg1) \<Rightarrow> show_supply rt amount pg1)"
    by (rule updateDashboard_fetched)
  from p assms fetchWeedPrice_value [of net "console pg" c0] have "price = JNull"
    by simp
  with u show ?thesis
    by (simp add: show_price_null show_supply_elsewhere)
qed

lemma updateDashboard_elsewhere:
  assumes "k \<noteq> ''weed-price''" and "k \<noteq> ''current-supply''"
  shows "document (snd (updateDashboard rt net pg)) k = document pg k"
proof -
  obtain price c1 amount c2 where
    u: "updateDashboard rt net pg =
       (case show_price rt price (pg\<lparr>console := c2\<rparr>) of
          (Inl err, pg1) \<Rightarrow> (Inl err, pg1)
        | (Inr u, pg1) \<Rightarrow> show_supply rt amount pg1)"
    by (rule updateDashboard_fetched)
  have "document (snd (show_price rt price (pg\<lparr>console := c2\<rparr>))) k = document pg k"
    using assms(1) by (simp add: show_price_elsewhere)
  with u assms(2) show ?thesis
    by (cases "show_price rt price (pg\<lparr>console := c2\<rparr>)")
       (auto simp: show_supply_elsewhere split: sum.splits)
qed

lemma show_price_writes:
  "document (snd (show_price rt price pg)) ''weed-price'' = document pg ''weed-price'' \<or>
   (\<exists>s. toFixed_call rt price 4 = Inr s \<and>
        document (snd (show_price rt price pg)) ''weed-price'' = Some (''$'' @ s))"
  by (auto simp: show_price_def split: option.splits sum.splits)

lemma show_supply_writes:
  "document (snd (show_supply rt amount pg)) ''current-supply'' = document pg ''current-supply'' \<or>
   (\<exists>s. toLocaleString rt amount = Inr s \<and>
        document (snd (show_supply rt amount pg)) ''current-supply'' = Some s)"
  by (auto simp: show_supply_def split: option.splits sum.splits)

lemma updateDashboard_price_written:
  assumes "fst (fetchWeedPrice net c0) = Inr price"
  shows "document (snd (updateDashboard rt net pg)) ''weed-price'' = document pg ''weed-price'' \<or>
         (\<exists>s. toFixed_call rt price 4 = Inr s \<and>
              document (snd (updateDashboard rt net pg)) ''weed-price'' = Some (''$'' @ s))"
proof -
  obtain price' c1 amount c2 where
    p: "fetchWeedPrice net (console pg) = (Inr price', c1)" and
    u: "updateDashboard rt net pg =
       (case show_price rt price' (pg\<lparr>console := c2\<rparr>) of
          (Inl err, pg1) \<Rightarrow> (Inl err, pg1)
        | (Inr u, pg1) \<Rightarrow> show_supply rt amount pg1)"
    by (rule updateDashboard_fetched)
  from p assms fetchWeedPrice_value [of net "console pg" c0] have "price' = price"
    by simp
  with u have "document (snd (updateDashboard rt net pg)) ''weed-price''
                 = document (snd (show_price rt price (pg\<lparr>console := c2\<rparr>))) ''weed-price''"
    by (cases "show_price rt price (pg\<lparr>console := c2\<rparr>)")
       (auto simp: show_supply_elsewhere split: sum.splits)
  with show_price_writes [of rt price "pg\<lparr>console := c2\<rparr>"] show ?thesis
    by simp
qed

lemma updateDashboard_supply_written:
  assumes "fst (fetchWeedSupply rt net c0) = Inr amount"
  shows "document (snd (updateDashboard rt net pg)) ''current-supply''
           = document pg ''current-supply'' \<or>
         (\<exists>s. toLocaleString rt amount = Inr s \<and>
              document (snd (updateDashboard rt net pg)) ''current-supply'' = Some s)"
proof -
  obtain price c1 amount' c2 where
    s: "fetchWeedSupply rt net c1 = (Inr amount', c2)" and
    u: "updateDashboard rt net pg =
       (case show_price rt price (pg\<lparr>console := c2\<rparr>) of
          (Inl err, pg1) \<Rightarrow> (Inl err, pg1)
        | (Inr u, pg1) \<Rightarrow> show_supply rt amount' pg1)"
    by (rule updateDashboard_fetched)
  from s assms fetchWeedSupply_value [of rt net c1 c0] have a: "amount' = amount"
    by simp
  obtain r pg1 where sp: "show_price rt price (pg\<lparr>console := c2\<rparr>) = (r, pg1)"
    by (cases "show_price rt price (pg\<lparr>console := c2\<rparr>)")
  have same: "document pg1 ''current-supply'' = document pg ''current-supply''"
    using show_price_elsewhere [of "''current-supply''" rt price "pg\<lparr>console := c2\<rparr>"] sp
    by simp
  show ?thesis
  proof (cases r)
    case (Inl err)
    with u sp same show ?thesis
      by simp
  next
    case (Inr x)
    with u sp a have "updateDashboard rt net pg = show_supply rt amount pg1"
      by simp
    with show_supply_writes [of rt amount pg1] same show ?thesis
      by simp
  qed
qed

text \<open>
  Claim C8. When the supply fetch returns \<^verbatim>\<open>null\<close>, \<^verbatim>\<open>updateDashboard\<close> leaves the text
  of the supply element as it was; when the price fetch returns \<^verbatim>\<open>null\<close>, it leaves the
  text of the price element as it was. Each of the two elements either keeps its text or
  gets the text made from what its own fetcher returned, and no other element is touched.
\<close>

theorem dashboard_frame:
  "(fst (fetchWeedSupply rt net c0) = Inr JNull \<longrightarrow>
      document (snd (updateDashboard rt net pg)) ''current-supply''
        = document pg ''current-supply'') \<and>
   (fst (fetchWeedPrice net c0) = Inr JNull \<longrightarrow>
      document (snd (updateDashboard rt net pg)) ''weed-price'' = document pg ''weed-price'') \<and>
   (fst (fetchWeedPrice net c0) = Inr price \<longrightarrow>
      document (snd (updateDashboard rt net pg)) ''weed-price'' = document pg ''weed-price'' \<or>
      (\<exists>s. toFixed_call rt price 4 = Inr s \<and>
           document (snd (updateDashboard rt net pg)) ''weed-price'' = Some (''$'' @ s))) \<and>
   (fst (fetchWeedSupply rt net c0) = Inr amount \<longrightarrow>
      document (snd (updateDashboard rt net pg)) ''current-supply''
        = document pg ''current-supply'' \<or>
      (\<exists>s. toLocaleString rt amount = Inr s \<and>
           document (snd (updateDashboard rt net pg)) ''current-supply'' = Some s)) \<and>
   (k \<noteq> ''weed-price'' \<and> k \<noteq> ''current-supply'' \<longrightarrow>
      document (snd (updateDashboard rt net pg)) k = document pg k)"
  using updateDashboard_supply_element [of rt net c0 pg]
    updateDashboard_price_element [of net c0 rt pg]
    updateDashboard_price_written [of net c0 price rt pg]
    updateDashboard_supply_written [of rt net c0 amount pg]
    updateDashboard_elsewhere [of k rt net pg]
  by blast

text \<open>The third end-to-end scenario: the services answer with the status 429.\<close>

theorem dashboard_frame_witness:
  "fst (fetchWeedSupply test_runtime (answering \<lparr>status = 429, json = Inr JNull\<rparr>) [])
     = Inr JNull \<and>
   document (snd (updateDashboard test_runtime (answering \<lparr>status = 429, json = Inr JNull\<rparr>)
                    loading_page)) ''current-supply'' = Some ''Loading...'' \<and>
   fst (fetchWeedPrice (answering \<lparr>status = 429, json = Inr JNull\<rparr>) []) = Inr JNull \<and>
   document (snd (updateDashboard test_runtime (answering \<lparr>status = 429, json = Inr JNull\<rparr>)
                    loading_page)) ''weed-price'' = Some ''Loading...'' \<and>
   document (snd (updateDashboard test_runtime (answering \<lparr>status = 429, json = Inr JNull\<rparr>)
                    loading_page)) ''title'' = None"
proof -
  have 1: "fst (fetchWeedSupply test_runtime (answering \<lparr>status = 429, json = Inr JNull\<rparr>) [])
             = Inr JNull"
    by (simp add: fetchWeedSupply_def supply_attempt_def answering_def ok_def try_log_null_Inl)
  have 2: "fst (fetchWeedPrice (answering \<lparr>status = 429, json = Inr JNull\<rparr>) []) = Inr JNull"
    by (simp add: fetchWeedPrice_def price_attempt_def answering_def try_log_null_Inr
        price_of_def priceInfo_of_def opt_get_def nullish_def js_or_def)
  show ?thesis
    using dashboard_frame
        [where rt = test_runtime and net = "answering \<lparr>status = 429, json = Inr JNull\<rparr>"
           and ?c0.0 = "[]" and pg = loading_page and k = "''title''"] 1 2
    by (simp add: loading_page_def)
qed

subsection \<open>The text of the price\<close>

lemma digit_char_props:
  assumes "d < 10"
  shows "is_digit (digit_char d)" and "of_char (digit_char d) = 48 + d"
proof -
  from assms have "d \<in> {0, 1, 2, 3, 4, 5, 6, 7, 8, 9}"
    by auto
  then show "is_digit (digit_char d)" and "of_char (digit_char d) = 48 + d"
    by (auto simp: digit_char_def is_digit_def)
qed

lemma decimal_digits: "decimal n \<noteq> [] \<and> (\<forall>ch \<in> set (decimal n). is_digit ch)"
proof (induction n rule: decimal.induct)
  case (1 n)
  show ?case
  proof (cases "n < 10")
    case True
    then show ?thesis
      by (subst decimal.simps, subst (2) decimal.simps) (simp add: digit_char_props)
  next
    case False
    with 1 show ?thesis
      by (subst decimal.simps, subst (2) decimal.simps) (simp add: digit_char_props)
  qed
qed

lemma digits_value_snoc:
  "digits_value (ds @ [ch]) = 10 * digits_value ds + (of_char ch - 48)"
  by (simp add: digits_value_def)

lemma digits_value_decimal: "digits_value (decimal n) = n"
proof (induction n rule: decimal.induct)
  case (1 n)
  show ?case
  proof (cases "n < 10")
    case True
    then show ?thesis
      by (subst decimal.simps) (simp add: digits_value_def digit_char_props)
  next
    case False
    with 1 show ?thesis
      by (subst decimal.simps) (simp add: digits_value_snoc digit_char_props)
  qed
qed

lemma digits_value_zeros: "digits_value (replicate k (CHR ''0'') @ ds) = digits_value ds"
proof -
  have "foldl (\<lambda>a ch. 10 * a + (of_char ch - 48)) 0 (replicate k (CHR ''0'')) = (0::nat)"
    by (induction k) simp_all
  then show ?thesis
    by (simp add: digits_value_def)
qed

text \<open>
  Below \<open>10\<^sup>2\<^sup>1\<close> in magnitude, \<^verbatim>\<open>toFixed(f)\<close> prints the sign, at least one digit, the
  point and exactly \<open>f\<close> digits, and the digits are those of the magnitude times
  \<open>10\<^sup>f\<close>, rounded to the nearest integer (upwards from the middle).
\<close>

lemma toFixed_places:
  assumes "\<bar>q\<bar> < 10 ^ 21" and "0 < f"
  shows "\<exists>ip fp.
           toFixed rt (Fin q) f = (if q < 0 then ''-'' else []) @ ip @ ''.'' @ fp \<and>
           ip \<noteq> [] \<and> length fp = f \<and> (\<forall>ch \<in> set (ip @ fp). is_digit ch) \<and>
           int (digits_value (ip @ fp)) = \<lfloor>\<bar>q\<bar> * 10 ^ f + 1 / 2\<rfloor>"
proof -
  define n where "n = nat \<lfloor>\<bar>q\<bar> * 10 ^ f + 1 / 2\<rfloor>"
  define m where "m = decimal n"
  define m' where
    "m' = (if length m \<le> f then replicate (f + 1 - length m) (CHR ''0'') @ m else m)"
  define ip where "ip = take (length m' - f) m'"
  define fp where "fp = drop (length m' - f) m'"
  have len: "f < length m'"
    by (simp add: m'_def)
  have split: "ip @ fp = m'"
    by (simp add: ip_def fp_def)
  have "0 \<le> \<bar>q\<bar> * 10 ^ f + 1 / 2"
    by simp
  then have n_floor: "int n = \<lfloor>\<bar>q\<bar> * 10 ^ f + 1 / 2\<rfloor>"
    by (simp add: n_def)
  have digits: "\<forall>ch \<in> set m'. is_digit ch"
    using decimal_digits [of n]
    by (auto simp: m'_def m_def is_digit_def)
  have val: "digits_value m' = n"
    by (simp add: m'_def m_def digits_value_zeros digits_value_decimal)
  have "toFixed rt (Fin q) f = (if q < 0 then ''-'' else []) @ ip @ ''.'' @ fp"
    using assms
    by (simp add: toFixed_def Let_def n_def [symmetric] m_def [symmetric] m'_def
        ip_def fp_def Suc_diff_le)
  moreover have "ip \<noteq> []"
    using len by (auto simp: ip_def)
  moreover have "length fp = f"
    using len by (simp add: fp_def)
  ultimately show ?thesis
    using split digits val n_floor by metis
qed

text \<open>The double that \<^verbatim>\<open>0.0042\<close> denotes prints as \<^verbatim>\<open>0.0042\<close>.\<close>

lemma toFixed_sample:
  "toFixed rt (Fin (4842270319348757 / 1152921504606846976)) 4 = ''0.0042''"
proof -
  have "\<lfloor>\<bar>4842270319348757 / 1152921504606846976 :: rat\<bar> * 10 ^ 4 + 1 / 2\<rfloor> = 42"
    by (simp add: floor_eq_iff)
  then have n: "nat \<lfloor>\<bar>4842270319348757 / 1152921504606846976 :: rat\<bar> * 10 ^ 4 + 1 / 2\<rfloor> = 42"
    by simp
  have d: "decimal 42 = ''42''"
    by code_simp
  show ?thesis
    unfolding toFixed_def jsnum.case Let_def n d
    by (simp add: numeral_2_eq_2)
qed

lemma price_only_price:
  "fst (fetchWeedPrice (price_only \<lparr>status = st, json = Inr (quote_body v)\<rparr>) c)
     = Inr (js_or v JNull)"
  by (simp add: fetchWeedPrice_def price_attempt_def price_only_def price_of_def priceInfo_of_def
      quote_body_def opt_get_def nullish_def try_log_null_Inr)

lemma price_only_dashboard:
  "updateDashboard rt (price_only \<lparr>status = st, json = Inr (quote_body v)\<rparr>) pg =
     (case show_price rt (js_or v JNull)
             (pg\<lparr>console := console pg @ [(''Failed to fetch token supply:'', NetworkError)]\<rparr>) of
        (Inl err, pg1) \<Rightarrow> (Inl err, pg1)
      | (Inr u, pg1) \<Rightarrow> (Inr (), pg1))"
  by (simp add: updateDashboard_def fetchWeedPrice_def price_attempt_def price_only_def
      price_of_def priceInfo_of_def quote_body_def opt_get_def nullish_def try_log_null_Inr
      fetchWeedSupply_def supply_attempt_def rpc_request_def price_request_v4_def
      default_endpoint_def try_log_null_Inl show_supply_null
      split: prod.splits sum.splits)

text \<open>
  Claim C7, as amended. When \<^verbatim>\<open>updateDashboard\<close> obtains a price that is a finite Number
  below \<open>10\<^sup>2\<^sup>1\<close> in magnitude and the price element is present, it sets the element's
  text to the currency symbol followed by the price rounded to exactly 4 decimal places
  (the price 0.0042 gives \<^verbatim>\<open>$0.0042\<close>). When the element is absent, the write is skipped
  without an error, whatever the price is; with both elements absent \<^verbatim>\<open>updateDashboard\<close>
  completes and changes no element.
\<close>

theorem dashboard_price_text:
  "(fst (fetchWeedPrice net c0) = Inr (JNum (Fin q)) \<and> \<bar>q\<bar> < 10 ^ 21 \<and>
    document pg ''weed-price'' \<noteq> None \<longrightarrow>
      (\<exists>ip fp.
         document (snd (updateDashboard rt net pg)) ''weed-price''
           = Some (''$'' @ (if q < 0 then ''-'' else []) @ ip @ ''.'' @ fp) \<and>
         ip \<noteq> [] \<and> length fp = 4 \<and> (\<forall>ch \<in> set (ip @ fp). is_digit ch) \<and>
         int (digits_value (ip @ fp)) = \<lfloor>\<bar>q\<bar> * 10 ^ 4 + 1 / 2\<rfloor>)) \<and>
   (document pg ''weed-price'' = None \<longrightarrow>
      show_price rt price pg = (Inr (), pg) \<and>
      document (snd (updateDashboard rt net pg)) ''weed-price'' = None \<and>
      (document pg ''current-supply'' = None \<longrightarrow>
         fst (updateDashboard rt net pg) = Inr () \<and>
         document (snd (updateDashboard rt net pg)) = document pg))"
proof (intro conjI impI)
  assume h: "fst (fetchWeedPrice net c0) = Inr (JNum (Fin q)) \<and> \<bar>q\<bar> < 10 ^ 21 \<and>
    document pg ''weed-price'' \<noteq> None"
  obtain price' c1 amount c2 where
    p: "fetchWeedPrice net (console pg) = (Inr price', c1)" and
    u: "updateDashboard rt net pg =
       (case show_price rt price' (pg\<lparr>console := c2\<rparr>) of
          (Inl err, pg1) \<Rightarrow> (Inl err, pg1)
        | (Inr u, pg1) \<Rightarrow> show_supply rt amount pg1)"
    by (rule updateDashboard_fetched)
  from p h fetchWeedPrice_value [of net "console pg" c0] have price: "price' = JNum (Fin q)"
    by simp
  from h obtain old where "document (pg\<lparr>console := c2\<rparr>) ''weed-price'' = Some old"
    by auto
  then have "show_price rt (JNum (Fin q)) (pg\<lparr>console := c2\<rparr>) =
     (Inr (), pg\<lparr>console := c2,
                 document := (document pg)(''weed-price'' \<mapsto> ''$'' @ toFixed rt (Fin q) 4)\<rparr>)"
    by (simp add: show_price_number)
  with u price
  have written: "document (snd (updateDashboard rt net pg)) ''weed-price''
          = Some (''$'' @ toFixed rt (Fin q) 4)"
    by (simp add: show_supply_elsewhere)
  from h have "\<bar>q\<bar> < 10 ^ 21"
    by simp
  from toFixed_places [OF this, of 4 rt] obtain ip fp where
    "toFixed rt (Fin q) 4 = (if q < 0 then ''-'' else []) @ ip @ ''.'' @ fp"
    "ip \<noteq> []" "length fp = 4" "\<forall>ch \<in> set (ip @ fp). is_digit ch"
    "int (digits_value (ip @ fp)) = \<lfloor>\<bar>q\<bar> * 10 ^ 4 + 1 / 2\<rfloor>"
    by auto
  with written show "\<exists>ip fp.
         document (snd (updateDashboard rt net pg)) ''weed-price''
           = Some (''$'' @ (if q < 0 then ''-'' else []) @ ip @ ''.'' @ fp) \<and>
         ip \<noteq> [] \<and> length fp = 4 \<and> (\<forall>ch \<in> set (ip @ fp). is_digit ch) \<and>
         int (digits_value (ip @ fp)) = \<lfloor>\<bar>q\<bar> * 10 ^ 4 + 1 / 2\<rfloor>"
    by (intro exI [of _ ip] exI [of _ fp]) simp
next
  assume "document pg ''weed-price'' = None"
  then show "show_price rt price pg = (Inr (), pg)"
    by (rule show_price_absent)
next
  assume a: "document pg ''weed-price'' = None"
  obtain price' c1 amount c2 where
    u: "updateDashboard rt net pg =
       (case show_price rt price' (pg\<lparr>console := c2\<rparr>) of
          (Inl err, pg1) \<Rightarrow> (Inl err, pg1)
        | (Inr u, pg1) \<Rightarrow> show_supply rt amount pg1)"
    by (rule updateDashboard_fetched)
  from a have s: "show_price rt price' (pg\<lparr>console := c2\<rparr>) = (Inr (), pg\<lparr>console := c2\<rparr>)"
    by (simp add: show_price_absent)
  from u s a show "document (snd (updateDashboard rt net pg)) ''weed-price'' = None"
    by (simp add: show_supply_elsewhere)
  { assume "document pg ''current-supply'' = None"
    with u s show "fst (updateDashboard rt net pg) = Inr ()"
      and "document (snd (updateDashboard rt net pg)) = document pg"
      by (simp_all add: show_supply_absent) }
qed

text \<open>
  The first end-to-end scenario, on a page that has the elements and on a page that has
  none (the fourth scenario).
\<close>

theorem dashboard_price_text_witness:
  "fst (fetchWeedPrice
          (price_only \<lparr>status = 200,
             json = Inr (quote_body (JNum (Fin (4842270319348757 / 1152921504606846976))))\<rparr>) [])
     = Inr (JNum (Fin (4842270319348757 / 1152921504606846976))) \<and>
   document loading_page ''weed-price'' \<noteq> None \<and>
   document (snd (updateDashboard test_runtime
       (price_only \<lparr>status = 200,
          json = Inr (quote_body (JNum (Fin (4842270319348757 / 1152921504606846976))))\<rparr>)
       loading_page)) ''weed-price'' = Some ''$0.0042'' \<and>
   document empty_page ''weed-price'' = None \<and>
   fst (updateDashboard test_runtime
       (price_only \<lparr>status = 200,
          json = Inr (quote_body (JNum (Fin (4842270319348757 / 1152921504606846976))))\<rparr>)
       empty_page) = Inr ()"
proof -
  have 1: "fst (fetchWeedPrice
          (price_only \<lparr>status = 200,
             json = Inr (quote_body (JNum (Fin (4842270319348757 / 1152921504606846976))))\<rparr>) [])
     = Inr (JNum (Fin (4842270319348757 / 1152921504606846976)))"
    by (simp add: price_only_price js_or_def)
  have 2: "\<bar>4842270319348757 / 1152921504606846976 :: rat\<bar> < 10 ^ 21"
    by simp
  have 3: "document (snd (updateDashboard test_runtime
       (price_only \<lparr>status = 200,
          json = Inr (quote_body (JNum (Fin (4842270319348757 / 1152921504606846976))))\<rparr>)
       loading_page)) ''weed-price'' = Some ''$0.0042''"
    by (simp add: price_only_dashboard js_or_def loading_page_def show_price_def toFixed_sample)
  show ?thesis
    using dashboard_price_text
        [of "price_only \<lparr>status = 200,
               json = Inr (quote_body (JNum (Fin (4842270319348757 / 1152921504606846976))))\<rparr>"
            "[]" "4842270319348757 / 1152921504606846976" loading_page test_runtime]
      dashboard_price_text
        [of "price_only \<lparr>status = 200,
               json = Inr (quote_body (JNum (Fin (4842270319348757 / 1152921504606846976))))\<rparr>"
            "[]" "4842270319348757 / 1152921504606846976" empty_page test_runtime]
      1 2 3
    by (simp add: loading_page_def empty_page_def)
qed

text \<open>
  Claim C7 as stated fails on a price that is not a Number. A price service that sends
  the price as the string \<^verbatim>\<open>"0.0042"\<close> makes \<^verbatim>\<open>fetchWeedPrice\<close> return that string;
  it is not \<^verbatim>\<open>null\<close>, the element is there, and \<^verbatim>\<open>price.toFixed\<close> is not a function:
  \<^verbatim>\<open>updateDashboard\<close> is rejected with a \<^verbatim>\<open>TypeError\<close> and the element keeps its text.
\<close>

theorem dashboard_price_text_counterexample:
  "fst (fetchWeedPrice
          (price_only \<lparr>status = 200, json = Inr (quote_body (JStr ''0.0042''))\<rparr>) [])
     = Inr (JStr ''0.0042'') \<and>
   JStr ''0.0042'' \<noteq> JNull \<and>
   fst (updateDashboard test_runtime
          (price_only \<lparr>status = 200, json = Inr (quote_body (JStr ''0.0042''))\<rparr>) loading_page)
     = Inl TypeError \<and>
   document (snd (updateDashboard test_runtime
          (price_only \<lparr>status = 200, json = Inr (quote_body (JStr ''0.0042''))\<rparr>) loading_page))
       ''weed-price''
     = Some ''Loading...''"
  by (simp add: price_only_price price_only_dashboard js_or_def loading_page_def show_price_def)

section \<open>Properties of the stubs\<close>

text \<open>
  Claim C9. \<^verbatim>\<open>getMintBurnEvents\<close> returns \<^verbatim>\<open>null\<close> for every limit, the default 100
  (an argument left out) included, and \<^verbatim>\<open>getPackDistribution\<close> returns \<^verbatim>\<open>null\<close> for
  every program id.
\<close>

theorem stubs_return_null:
  "getMintBurnEvents limit = Inr JNull \<and>
   getMintBurnEvents JUndefined = Inr JNull \<and>
   getMintBurnEvents (JNum (Fin 100)) = Inr JNull \<and>
   getPackDistribution programId = Inr JNull"
  by (simp add: getMintBurnEvents_def getPackDistribution_def)

end
